theory Spec2Isabelle
  imports Complex_Main
begin

section \<open>The script \<open>src/misc/scripts/interp.py\<close>\<close>

text \<open>
  The script holds three sample points in two parallel lists, evaluates numpy's
  piecewise-linear interpolant through them at 251.0, integrates that interpolant from
  94.0 to 251.0 with scipy's \<open>quad\<close>, and evaluates a hand-expanded quadratic through
  the same points at 251.0, printing each result.

  Python's floats are modelled as the real numbers: every theorem below is a statement of
  exact arithmetic, and says nothing about the rounding of IEEE doubles. Python's integers
  (the denominators of \<open>f\<close> are products of integer literals) are modelled as \<open>int\<close>.
  An exception is a value of \<open>py_error\<close> on the left of a sum.
\<close>

subsection \<open>Errors\<close>

datatype py_error = ZeroDivisionError | ValueError

definition and_then :: "py_error + 'a \<Rightarrow> ('a \<Rightarrow> py_error + 'b) \<Rightarrow> py_error + 'b" where
  "and_then m k = (case m of Inl e \<Rightarrow> Inl e | Inr v \<Rightarrow> k v)"

text \<open>
  Python's \<open>/\<close> with a float on the left and an integer on the right: it raises
  ZeroDivisionError when the divisor is zero.
\<close>

definition truediv :: "real \<Rightarrow> int \<Rightarrow> py_error + real" where
  "truediv a b = (if b = 0 then Inl ZeroDivisionError else Inr (a / real_of_int b))"

subsection \<open>The sample points\<close>

text \<open>\<open>x = [94.0, 205.0, 371.0]\<close> and \<open>y = [929.0, 902.0, 860.0]\<close>.\<close>

definition x :: "real list" where
  "x = [94, 205, 371]"

definition y :: "real list" where
  "y = [929, 902, 860]"

subsection \<open>The piecewise-linear interpolant\<close>

text \<open>
  Modelled from the spec: \<open>np.interp\<close> is numpy's, and its code is not among the
  sources. Sections 4.1 and 6 of the specification describe it: it takes the query
  point, the sorted x-array and the y-array; it locates the bracketing interval
  \<open>[x_i, x_{i+1}]\<close> containing \<open>t\<close> and returns
  \<open>y_i + (t - x_i) * (y_{i+1} - y_i) / (x_{i+1} - x_i)\<close>; below the minimum x and above
  the maximum x it returns the nearest endpoint's y-value. Where a query point is a sample
  x-value shared by two intervals, the interval that starts there is taken (numpy's own
  choice). numpy refuses arrays of different lengths and an empty array of sample points
  with a ValueError.

  \<open>interp_from t x0 y0 ps\<close> walks the remaining points \<open>ps\<close> with \<open>(x0, y0)\<close> the
  last point known to be at or left of \<open>t\<close>.
\<close>

fun interp_from :: "real \<Rightarrow> real \<Rightarrow> real \<Rightarrow> (real \<times> real) list \<Rightarrow> real" where
  "interp_from t x0 y0 [] = y0"
| "interp_from t x0 y0 ((x1, y1) # ps) =
     (if t < x1 then y0 + (t - x0) * (y1 - y0) / (x1 - x0) else interp_from t x1 y1 ps)"

definition np_interp :: "real \<Rightarrow> real list \<Rightarrow> real list \<Rightarrow> py_error + real" where
  "np_interp t xp fp =
     (if length xp \<noteq> length fp then Inl ValueError
      else case zip xp fp of
             [] \<Rightarrow> Inl ValueError
           | (x0, y0) # ps \<Rightarrow> Inr (if t < x0 then y0 else interp_from t x0 y0 ps))"

text \<open>\<open>f_interp = lambda xx: np.interp(xx, x, y)\<close>\<close>

definition f_interp :: "real \<Rightarrow> py_error + real" where
  "f_interp xx = np_interp xx x y"

subsection \<open>The hand-expanded quadratic\<close>

text \<open>
  \<open>def f(t)\<close>: the three terms \<open>a\<close>, \<open>b\<close>, \<open>c\<close> in the order the source computes them.
  Each numerator is a float; each denominator is a product of differences of integer
  literals, so each division is \<open>truediv\<close>.
\<close>

definition f :: "real \<Rightarrow> py_error + real" where
  "f t =
     and_then (truediv (929 * ((t - 205) * (t - 371))) ((94 - 205) * (94 - 371))) (\<lambda>a.
     and_then (truediv (902 * ((t - 94) * (t - 371))) ((205 - 94) * (205 - 371))) (\<lambda>b.
     and_then (truediv (860 * ((t - 94) * (t - 205))) ((371 - 94) * (371 - 205))) (\<lambda>c.
     Inr (a + b + c))))"

subsection \<open>The Lagrange interpolant, as the specification words it\<close>

text \<open>
  Section 4.3 of the specification: \<open>f(t) = y0 * L0(t) + y1 * L1(t) + y2 * L2(t)\<close>,
  where \<open>Li(t)\<close> is the product of \<open>(t - xj) / (xi - xj)\<close> over \<open>j \<noteq> i\<close>. This
  definition follows the specification's words, for any number of points; the source's
  \<open>f\<close> above is compared with it.
\<close>

definition lagrange_basis :: "real list \<Rightarrow> nat \<Rightarrow> real \<Rightarrow> real" where
  "lagrange_basis xs i t =
     prod_list (map (\<lambda>j. (t - xs ! j) / (xs ! i - xs ! j))
                    (filter (\<lambda>j. j \<noteq> i) [0..<length xs]))"

definition lagrange :: "real list \<Rightarrow> real list \<Rightarrow> real \<Rightarrow> real" where
  "lagrange xs ys t = sum_list (map (\<lambda>i. ys ! i * lagrange_basis xs i t) [0..<length xs])"

subsection \<open>The quadrature primitive\<close>

text \<open>
  \<open>quad\<close> is scipy's, an adaptive quadrature over floating-point numbers whose code is not
  among the sources. The script hands it a callable and two bounds and prints the pair it
  returns, so the primitive is a parameter of the model.
\<close>

type_synonym integrand = "real \<Rightarrow> py_error + real"

type_synonym quad_fn = "integrand \<Rightarrow> real \<Rightarrow> real \<Rightarrow> real \<times> real"

subsection \<open>The module body and standard output\<close>

text \<open>
  Standard output is the list of values printed so far; \<open>print\<close> appends one. The module
  body runs its three \<open>print\<close> statements in the order of the source; an exception in
  an argument ends the run.
\<close>

datatype printed = PFloat real | PTuple real real

definition print :: "printed \<Rightarrow> printed list \<Rightarrow> printed list" where
  "print v out = out @ [v]"

definition module_body :: "quad_fn \<Rightarrow> printed list \<Rightarrow> py_error + printed list" where
  "module_body quad out0 =
     and_then (f_interp 251) (\<lambda>v1.
       let out1 = print (PFloat v1) out0;
           (est, err) = quad f_interp 94 251;
           out2 = print (PTuple est err) out1
       in and_then (f 251) (\<lambda>v3. Inr (print (PFloat v3) out2)))"

section \<open>What the two interpolants compute\<close>

text \<open>The value of \<open>f_interp\<close> on each of the four regions of the line.\<close>

lemma f_interp_cases:
  "f_interp t =
     Inr (if t < 94 then 929
          else if t < 205 then 929 + (t - 94) * (902 - 929) / (205 - 94)
          else if t < 371 then 902 + (t - 205) * (860 - 902) / (371 - 205)
          else 860)"
  by (simp add: f_interp_def np_interp_def x_def y_def)

text \<open>No division of \<open>f\<close> fails; its value with the denominators multiplied out.\<close>

lemma f_value:
  "f t = Inr (929 * ((t - 205) * (t - 371)) / 30747
              + 902 * ((t - 94) * (t - 371)) / (- 18426)
              + 860 * ((t - 94) * (t - 205)) / 45982)"
  by (simp add: f_def and_then_def truediv_def)

text \<open>\<open>f\<close> as a polynomial in \<open>t\<close>.\<close>

lemma f_polynomial:
  "f t = Inr ((- 30 / 850667) * t^2 + (- 197949 / 850667) * t + 809141929 / 850667)"
  by (simp add: f_value power2_eq_square field_simps)

section \<open>Exact pass-through at the sample points\<close>

text \<open>
  Claim C6. Both interpolants, evaluated exactly at the sample x-values 94, 205 and 371,
  return 929, 902 and 860 respectively. In exact arithmetic the values are equal, so
  they are within any tolerance.
\<close>

theorem pass_through:
  "f_interp 94 = Inr 929 \<and> f_interp 205 = Inr 902 \<and> f_interp 371 = Inr 860 \<and>
   f 94 = Inr 929 \<and> f 205 = Inr 902 \<and> f 371 = Inr 860"
  by (simp add: f_interp_cases f_value)

section \<open>No division by zero in \<open>f\<close>\<close>

text \<open>
  Claim C7. Each denominator of \<open>f\<close> is a constant product of differences of the
  pairwise distinct sample x-values and is not zero. The guarded division \<open>truediv\<close>
  fails exactly on a zero divisor, so no division of \<open>f\<close> takes its error branch: for
  every query point, \<open>f\<close> does not raise ZeroDivisionError and returns a float.
\<close>

theorem f_never_divides_by_zero:
  "(94 - 205) * (94 - 371) \<noteq> (0::int) \<and> (205 - 94) * (205 - 371) \<noteq> (0::int) \<and>
   (371 - 94) * (371 - 205) \<noteq> (0::int) \<and> distinct x \<and>
   (truediv a b = Inl ZeroDivisionError \<longleftrightarrow> b = 0) \<and>
   f t \<noteq> Inl ZeroDivisionError \<and> (\<exists>v. f t = Inr v)"
  by (simp add: f_value x_def truediv_def)

section \<open>The sample points are not collinear\<close>

text \<open>
  Claim C9. The coefficient of \<open>t^2\<close> in \<open>f\<close> is
  \<open>929 / ((94-205)*(94-371)) + 902 / ((205-94)*(205-371)) + 860 / ((371-94)*(371-205))\<close>,
  which is \<open>-180 / 5104002\<close> and not zero, so \<open>f\<close> has degree exactly 2; and the slopes
  of the two segments of the piecewise-linear interpolant differ.
\<close>

theorem samples_not_collinear:
  "929 / ((94 - 205) * (94 - 371)) + 902 / ((205 - 94) * (205 - 371))
     + 860 / ((371 - 94) * (371 - 205)) = (- 180 / 5104002 :: real) \<and>
   (- 180 / 5104002 :: real) \<noteq> 0 \<and>
   (\<exists>b c. \<forall>t. f t = Inr ((- 180 / 5104002) * t^2 + b * t + c)) \<and>
   (y ! 1 - y ! 0) / (x ! 1 - x ! 0) \<noteq> (y ! 2 - y ! 1) / (x ! 2 - x ! 1)"
proof -
  have "\<forall>t. f t = Inr ((- 180 / 5104002) * t^2 + (- 197949 / 850667) * t + 809141929 / 850667)"
    by (simp add: f_polynomial)
  then have "\<exists>b c. \<forall>t. f t = Inr ((- 180 / 5104002) * t^2 + b * t + c)"
    by blast
  then show ?thesis
    by (simp add: x_def y_def)
qed

section \<open>\<open>f\<close> refines the Lagrange formula\<close>

text \<open>A quadratic through the three sample points has the coefficients of \<open>f\<close>.\<close>

lemma quadratic_through_samples:
  fixes a b c :: real
  assumes "a * 94^2 + b * 94 + c = 929" and "a * 205^2 + b * 205 + c = 902"
    and "a * 371^2 + b * 371 + c = 860"
  shows "a = - 30 / 850667 \<and> b = - 197949 / 850667 \<and> c = 809141929 / 850667"
  using assms by (simp add: power2_eq_square)

text \<open>
  Claim C4. For every query point \<open>t\<close>, the hand-expanded \<open>f\<close> equals the Lagrange
  interpolant \<open>y0 * L0(t) + y1 * L1(t) + y2 * L2(t)\<close> of the sample set, with \<open>Li(t)\<close>
  the product of \<open>(t - xj) / (xi - xj)\<close> over \<open>j \<noteq> i\<close>. It is the unique quadratic
  through the three points: it passes through them, it is a polynomial of degree at
  most 2, and every quadratic \<open>a * t^2 + b * t + c\<close> through them is \<open>f\<close>.
\<close>

theorem f_refines_lagrange:
  "f t = Inr (lagrange x y t) \<and>
   lagrange x y t = y ! 0 * ((t - x ! 1) / (x ! 0 - x ! 1) * ((t - x ! 2) / (x ! 0 - x ! 2)))
                  + y ! 1 * ((t - x ! 0) / (x ! 1 - x ! 0) * ((t - x ! 2) / (x ! 1 - x ! 2)))
                  + y ! 2 * ((t - x ! 0) / (x ! 2 - x ! 0) * ((t - x ! 1) / (x ! 2 - x ! 1))) \<and>
   f 94 = Inr 929 \<and> f 205 = Inr 902 \<and> f 371 = Inr 860 \<and>
   (\<exists>a b c. \<forall>s. f s = Inr (a * s^2 + b * s + c)) \<and>
   (a * 94^2 + b * 94 + c = 929 \<and> a * 205^2 + b * 205 + c = 902 \<and> a * 371^2 + b * 371 + c = 860
      \<longrightarrow> f t = Inr (a * t^2 + b * t + c))"
proof -
  have eq: "f t = Inr (lagrange x y t)"
    by (simp add: f_value lagrange_def lagrange_basis_def x_def y_def upt_rec)
  have expand:
    "lagrange x y t = y ! 0 * ((t - x ! 1) / (x ! 0 - x ! 1) * ((t - x ! 2) / (x ! 0 - x ! 2)))
                    + y ! 1 * ((t - x ! 0) / (x ! 1 - x ! 0) * ((t - x ! 2) / (x ! 1 - x ! 2)))
                    + y ! 2 * ((t - x ! 0) / (x ! 2 - x ! 0) * ((t - x ! 1) / (x ! 2 - x ! 1)))"
    by (simp add: lagrange_def lagrange_basis_def x_def y_def upt_rec)
  have through: "f 94 = Inr 929 \<and> f 205 = Inr 902 \<and> f 371 = Inr 860"
    by (simp add: f_value)
  have poly: "\<exists>a b c. \<forall>s. f s = Inr (a * s^2 + b * s + c)"
    using f_polynomial by blast
  have unique:
    "a * 94^2 + b * 94 + c = 929 \<and> a * 205^2 + b * 205 + c = 902 \<and> a * 371^2 + b * 371 + c = 860
       \<longrightarrow> f t = Inr (a * t^2 + b * t + c)"
  proof (intro impI, elim conjE)
    assume "a * 94^2 + b * 94 + c = 929" and "a * 205^2 + b * 205 + c = 902"
      and "a * 371^2 + b * 371 + c = 860"
    then have "a = - 30 / 850667 \<and> b = - 197949 / 850667 \<and> c = 809141929 / 850667"
      by (rule quadratic_through_samples)
    then show "f t = Inr (a * t^2 + b * t + c)"
      by (simp add: f_polynomial)
  qed
  from eq expand through poly unique show ?thesis
    by blast
qed

text \<open>
  The witness for C4: the coefficients of \<open>f\<close> meet the three conditions, and at
  \<open>t = 251\<close> the source, the Lagrange formula and the polynomial give the same value.
\<close>

theorem f_refines_lagrange_witness:
  "(- 30 / 850667) * 94^2 + (- 197949 / 850667) * 94 + 809141929 / 850667 = (929::real) \<and>
   (- 30 / 850667) * 205^2 + (- 197949 / 850667) * 205 + 809141929 / 850667 = (902::real) \<and>
   (- 30 / 850667) * 371^2 + (- 197949 / 850667) * 371 + 809141929 / 850667 = (860::real) \<and>
   f 251 = Inr (lagrange x y 251) \<and>
   f 251 = Inr ((- 30 / 850667) * 251^2 + (- 197949 / 850667) * 251 + 809141929 / 850667)"
  using f_refines_lagrange [of 251 "- 30 / 850667" "- 197949 / 850667" "809141929 / 850667"]
  by (simp add: x_def y_def)

section \<open>The linear interpolant: clamping, the bracket formula, monotonicity\<close>

text \<open>
  Claim C5. For every query point below the least sample x-value (\<open>t < 94\<close>) the linear
  interpolant returns exactly 929, and for every one above the greatest (\<open>t > 371\<close>)
  exactly 860: it clamps to the nearest endpoint's y-value.
\<close>

theorem f_interp_clamps:
  "(t < 94 \<longrightarrow> f_interp t = Inr 929) \<and> (371 < t \<longrightarrow> f_interp t = Inr 860)"
  by (simp add: f_interp_cases)

text \<open>The witness for C5, at 0 on the left and at 400 on the right.\<close>

theorem f_interp_clamps_witness:
  "(0::real) < 94 \<and> f_interp 0 = Inr 929 \<and> (371::real) < 400 \<and> f_interp 400 = Inr 860"
  using f_interp_clamps [of 0] f_interp_clamps [of 400] by simp

text \<open>
  Claim C3, as amended. For every query point \<open>t\<close> in a bracketing interval
  \<open>[x_i, x_{i+1}]\<close> of consecutive sample x-values, \<open>f_interp t\<close> is
  \<open>y_i + (t - x_i) * (y_{i+1} - y_i) / (x_{i+1} - x_i)\<close>, both endpoints included; and
  since 251 lies in \<open>[205, 371]\<close>, \<open>f_interp 251\<close> is \<open>902 + 46 * (-42) / 166\<close>, which
  is 73900/83, about 890.361.
\<close>

theorem f_interp_bracket_formula:
  "(i + 1 < length x \<and> x ! i \<le> t \<and> t \<le> x ! (i + 1) \<longrightarrow>
      f_interp t = Inr (y ! i + (t - x ! i) * (y ! (i + 1) - y ! i) / (x ! (i + 1) - x ! i))) \<and>
   f_interp 251 = Inr (902 + 46 * (- 42) / 166) \<and>
   \<bar>902 + 46 * (- 42) / 166 - 890361 / 1000\<bar> < (1 / 1000 :: real)"
proof -
  have bracket:
    "f_interp t = Inr (y ! i + (t - x ! i) * (y ! (i + 1) - y ! i) / (x ! (i + 1) - x ! i))"
    if i: "i + 1 < length x" and lo: "x ! i \<le> t" and hi: "t \<le> x ! (i + 1)"
  proof -
    from i have "i = 0 \<or> i = 1"
      by (auto simp: x_def)
    then show ?thesis
    proof
      assume "i = 0"
      with lo hi show ?thesis
        by (auto simp: f_interp_cases x_def y_def)
    next
      assume "i = 1"
      with lo hi show ?thesis
        by (auto simp: f_interp_cases x_def y_def)
    qed
  qed
  have at_251: "f_interp 251 = Inr (902 + 46 * (- 42) / 166)"
    by (simp add: f_interp_cases)
  have near: "\<bar>902 + 46 * (- 42) / 166 - 890361 / 1000\<bar> < (1 / 1000 :: real)"
    by simp
  from bracket at_251 near show ?thesis
    by blast
qed

text \<open>The witness for C3: the second interval, \<open>i = 1\<close>, at \<open>t = 251\<close>.\<close>

theorem f_interp_bracket_formula_witness:
  "1 + 1 < length x \<and> x ! 1 \<le> 251 \<and> 251 \<le> x ! (1 + 1) \<and>
   f_interp 251 = Inr (y ! 1 + (251 - x ! 1) * (y ! (1 + 1) - y ! 1) / (x ! (1 + 1) - x ! 1))"
  using f_interp_bracket_formula [of 1 251] by (simp add: x_def y_def)

text \<open>
  The counterexample to C3 as stated: \<open>f_interp 251\<close> is \<open>902 + 46 * (-42) / 166\<close>, and
  that number is more than 1 away from the 889.361 the claim gives for it.
\<close>

theorem f_interp_251_is_not_889:
  "f_interp 251 = Inr (902 + 46 * (- 42) / 166) \<and>
   \<not> \<bar>902 + 46 * (- 42) / 166 - 889361 / 1000\<bar> \<le> (1::real)"
  by (simp add: f_interp_cases)

text \<open>
  Claim C10. The piecewise-linear interpolant is non-increasing on the whole line: for
  query points \<open>s \<le> t\<close>, both calls return a float and \<open>f_interp s \<ge> f_interp t\<close>.
\<close>

theorem f_interp_nonincreasing:
  "s \<le> t \<Longrightarrow> \<exists>a b. f_interp s = Inr a \<and> f_interp t = Inr b \<and> b \<le> a"
  by (auto simp: f_interp_cases field_simps)

text \<open>The witness for C10, across the kink at 205.\<close>

theorem f_interp_nonincreasing_witness:
  "(100::real) \<le> 300 \<and> f_interp 100 = Inr (34319 / 37) \<and> f_interp 300 = Inr (72871 / 83) \<and>
   (72871 / 83 :: real) \<le> 34319 / 37"
  using f_interp_nonincreasing [of 100 300] by (simp add: f_interp_cases)

section \<open>Standard output\<close>

text \<open>
  Claim C8. The program writes exactly three results to standard output, in this order:
  the linear-interpolant value \<open>f_interp(251.0)\<close>, then the pair that the quadrature over
  \<open>[94, 251]\<close> returned, then the quadratic-interpolant value \<open>f(251.0)\<close>. This holds
  for every quadrature primitive and whatever was printed before.
\<close>

theorem module_body_prints_three:
  "module_body quad out0 =
     Inr (out0 @ [PFloat (73900 / 83),
                  PTuple (fst (quad f_interp 94 251)) (snd (quad f_interp 94 251)),
                  PFloat (757566700 / 850667)]) \<and>
   f_interp 251 = Inr (73900 / 83) \<and> f 251 = Inr (757566700 / 850667)"
  by (simp add: module_body_def and_then_def print_def f_interp_cases f_value split: prod.split)

end
